theory Spec2Isabelle
  imports Main
begin

section \<open>Go values used by the caching round tripper\<close>

text \<open>
  Byte slices and Go strings are both sequences of bytes; they are modelled as
  \<open>string\<close> (a list of 8-bit characters), so \<open>length\<close> is Go's \<open>len\<close>.
\<close>

type_synonym bytes = string

text \<open>
  Go error values. \<open>Errorf\<close> is an error made by \<open>fmt.Errorf\<close> without \<open>%w\<close> (it
  carries the formatted message), \<open>Wrapf\<close> one made with a trailing \<open>%w\<close> (the
  message prefix and the wrapped error). \<open>ErrNotExist\<close> is \<open>os.ErrNotExist\<close>,
  \<open>PathError\<close> is \<open>*fs.PathError\<close> (operation, path, cause); \<open>OtherError\<close> stands
  for any other error of a collaborator (permission, I/O, network).
\<close>

datatype error =
    Errorf string
  | Wrapf string error
  | ErrNotExist
  | PathError string string error
  | OtherError string

text \<open>\<open>errors.Is\<close>: the error equals the target, or an error it wraps does.\<close>

fun errors_Is :: "error \<Rightarrow> error \<Rightarrow> bool" where
  "errors_Is (Errorf m) t = (Errorf m = t)"
| "errors_Is (Wrapf m e) t = (Wrapf m e = t \<or> errors_Is e t)"
| "errors_Is ErrNotExist t = (ErrNotExist = t)"
| "errors_Is (PathError opn p e) t = (PathError opn p e = t \<or> errors_Is e t)"
| "errors_Is (OtherError m) t = (OtherError m = t)"

text \<open>
  The outcome of a Go function returning \<open>(value, error)\<close>: \<open>Ok\<close> is a value with a
  nil error, \<open>Err\<close> a non-nil error, \<open>Panic\<close> a run-time panic.
\<close>

datatype 'a result = Ok 'a | Err error | Panic string

text \<open>\<open>url.URL\<close>, field by field.\<close>

record url =
  Scheme :: string
  Opaque :: string
  User :: "(string \<times> string option) option"
  Host :: string
  Path :: string
  RawPath :: string
  OmitHost :: bool
  ForceQuery :: bool
  RawQuery :: string
  Fragment :: string
  RawFragment :: string

text \<open>\<open>http.Header\<close> is a Go map from canonical header names to value lists.\<close>

type_synonym header = "string \<rightharpoonup> string list"

text \<open>
  \<open>time.Time\<close>: an instant (seconds and nanoseconds since the Unix epoch) shown in a
  location. \<open>UTC\<close> keeps the instant and sets the location.
\<close>

record time =
  unix_sec :: int
  nsec :: nat
  location :: string

definition time_UTC :: "time \<Rightarrow> time" where
  "time_UTC t = t\<lparr>location := ''UTC''\<rparr>"

definition http_TimeFormat :: string where
  "http_TimeFormat = ''Mon, 02 Jan 2006 15:04:05 GMT''"

text \<open>\<open>os.FileInfo\<close>: only the modification time is read.\<close>

record fileinfo =
  ModTime :: time

text \<open>
  An \<open>io.ReadCloser\<close> holding a response body: the bytes still to be read, the error
  that ends the stream (\<open>None\<close> for a clean end of file) and whether it was closed.
\<close>

record body =
  data :: bytes
  fail :: "error option"
  closed :: bool

text \<open>\<open>io.ReadAll\<close> returns what was read before the stream ended, and the error if any.\<close>

definition io_ReadAll :: "body \<Rightarrow> bytes \<times> error option" where
  "io_ReadAll b = (data b, fail b)"

text \<open>\<open>io.NopCloser(bytes.NewReader(b))\<close>: a fully buffered body over \<open>b\<close>.\<close>

definition NopCloser_NewReader :: "bytes \<Rightarrow> body" where
  "NopCloser_NewReader b = \<lparr>data = b, fail = None, closed = False\<rparr>"

definition http_NoBody :: body where
  "http_NoBody = \<lparr>data = [], fail = None, closed = False\<rparr>"

definition StatusOK :: int where "StatusOK = 200"
definition StatusMultipleChoices :: int where "StatusMultipleChoices = 300"
definition StatusNotModified :: int where "StatusNotModified = 304"

text \<open>
  Requests live in a store, because the round tripper clones the caller's request and
  writes to the clone. \<open>*http.Request\<close> is an address of a request struct; the struct's
  \<open>Header\<close> field is a Go map, that is a reference to a header object of its own. Every
  address holds a value; \<open>next_req\<close> and \<open>next_hdr\<close> are the allocation frontiers, so an
  allocated object has an address below them. The struct keeps the fields the package
  reads or writes, and the method; requests handed to a round tripper have a non-nil
  URL and header map.
\<close>

record request =
  Method :: string
  URL :: url
  Header :: nat

record heap =
  req_at :: "nat \<Rightarrow> request"
  hdr_at :: "nat \<Rightarrow> header"
  next_req :: nat
  next_hdr :: nat

text \<open>
  \<open>http.Response\<close>. \<open>Request\<close> is a pointer to the request the response answers
  (\<open>None\<close> is nil). The response's own headers are held by value. \<open>ContentLength\<close> is
  an \<open>int64\<close>; the only value the package stores in it is the length of a byte slice,
  which always fits.
\<close>

record response =
  StatusCode :: int
  Status :: string
  Body :: body
  ResponseHeader :: header
  ContentLength :: int
  Request :: "nat option"

text \<open>
  An \<open>http.RoundTripper\<close>: given the request pointer and the store it reads the request
  from, and its own state, it returns a response or an error, and its new state. By the
  interface's contract it does not modify the request, returns a non-nil response with a
  non-nil body when the error is nil, and so cannot write to the store.
\<close>

type_synonym 't RoundTripper = "nat \<Rightarrow> heap \<Rightarrow> 't \<Rightarrow> (error + response) \<times> 't"

text \<open>
  The collaborators from Go's standard library that the package calls. The file system
  has a state of type \<open>'fs\<close>; reading operations return a value or an error, writing
  operations return an optional error and the new state.
\<close>

record ('fs, 't) lib =
  url_String :: "url \<Rightarrow> string"
  url_Parse :: "string \<Rightarrow> error + url"
  sha256_Sum256 :: "bytes \<Rightarrow> bytes"
  filepath_Join :: "string \<Rightarrow> string \<Rightarrow> string"
  os_Stat :: "string \<Rightarrow> 'fs \<Rightarrow> error + fileinfo"
  os_ReadFile :: "string \<Rightarrow> 'fs \<Rightarrow> error + bytes"
  os_WriteFile :: "string \<Rightarrow> bytes \<Rightarrow> nat \<Rightarrow> 'fs \<Rightarrow> error option \<times> 'fs"
  os_Rename :: "string \<Rightarrow> string \<Rightarrow> 'fs \<Rightarrow> error option \<times> 'fs"
  os_MkdirAll :: "string \<Rightarrow> nat \<Rightarrow> 'fs \<Rightarrow> error option \<times> 'fs"
  time_Format :: "time \<Rightarrow> string \<Rightarrow> string"
  CanonicalMIMEHeaderKey :: "string \<Rightarrow> string"
  http_DefaultTransport :: "'t RoundTripper"

text \<open>
  One call of the underlying transport, as the transport saw it: the request pointer it
  was given, and the URL and headers that request had at that moment.
\<close>

record transport_call =
  call_req :: nat
  call_URL :: url
  call_Header :: header

text \<open>
  The world the round tripper runs in: the store, the file system, the transport's state
  and the log of the calls made to the transport.
\<close>

record ('fs, 't) world =
  heap :: heap
  fs :: 'fs
  ts :: 't
  calls :: "transport_call list"

section \<open>Library operations with a fixed meaning\<close>

definition strings_HasPrefix :: "string \<Rightarrow> string \<Rightarrow> bool" where
  "strings_HasPrefix s p = (length s \<ge> length p \<and> take (length p) s = p)"

definition strings_TrimPrefix :: "string \<Rightarrow> string \<Rightarrow> string" where
  "strings_TrimPrefix s p = (if strings_HasPrefix s p then drop (length p) s else s)"

definition hex_byte :: "char \<Rightarrow> string" where
  "hex_byte c = [''0123456789abcdef'' ! (of_char c div 16), ''0123456789abcdef'' ! (of_char c mod 16)]"

definition hex_EncodeToString :: "bytes \<Rightarrow> string" where
  "hex_EncodeToString bs = concat (map hex_byte bs)"

text \<open>\<open>Header.Get\<close>: the first value under the canonical key, or the empty string.\<close>

definition Header_Get :: "('fs, 't) lib \<Rightarrow> header \<Rightarrow> string \<Rightarrow> string" where
  "Header_Get L h k =
     (case h (CanonicalMIMEHeaderKey L k) of
        None \<Rightarrow> ''''
      | Some [] \<Rightarrow> ''''
      | Some (v # _) \<Rightarrow> v)"

text \<open>\<open>Header.Set\<close>: the canonical key now holds exactly the one value.\<close>

definition Header_Set :: "('fs, 't) lib \<Rightarrow> header \<Rightarrow> string \<Rightarrow> string \<Rightarrow> header" where
  "Header_Set L h k v = h(CanonicalMIMEHeaderKey L k \<mapsto> [v])"

text \<open>
  \<open>Request.Clone\<close> returns a deep copy: a new request struct whose \<open>Header\<close> is a new map
  with the same entries. Both are allocated at the frontiers of the store.
\<close>

definition Request_Clone :: "nat \<Rightarrow> heap \<Rightarrow> nat \<times> heap" where
  "Request_Clone r h =
     (let r2 = next_req h; h2 = next_hdr h
      in (r2, h\<lparr>req_at := (req_at h)(r2 := (req_at h r)\<lparr>Header := h2\<rparr>),
                hdr_at := (hdr_at h)(h2 := hdr_at h (Header (req_at h r))),
                next_req := Suc r2,
                next_hdr := Suc h2\<rparr>))"

text \<open>
  \<open>Transport.RegisterProtocol\<close> on the transport's table of alternate protocols; it
  panics when the scheme is already registered (\<open>None\<close>).
\<close>

definition RegisterProtocol :: "string \<Rightarrow> 'r \<Rightarrow> (string \<rightharpoonup> 'r) \<Rightarrow> (string \<rightharpoonup> 'r) option" where
  "RegisterProtocol scheme rt protocols =
     (case protocols scheme of
        Some _ \<Rightarrow> None
      | None \<Rightarrow> Some (protocols(scheme \<mapsto> rt)))"

text \<open>
  Calling the transport: the transport computes its answer from the request and its
  state, and the call is logged.
\<close>

definition invoke :: "'t RoundTripper \<Rightarrow> nat \<Rightarrow> ('fs, 't) world \<Rightarrow> (error + response) \<times> ('fs, 't) world" where
  "invoke T req w =
     (let (res, ts') = T req (heap w) (ts w)
      in (res, w\<lparr>ts := ts',
                 calls := calls w @ [\<lparr>call_req = req,
                                      call_URL = URL (req_at (heap w) req),
                                      call_Header = hdr_at (heap w) (Header (req_at (heap w) req))\<rparr>]\<rparr>))"

section \<open>The round tripper (roundtripper.go)\<close>

record 't cacheRoundTripper =
  original :: "'t RoundTripper option"
  cacheDir :: string

definition NewRoundTripper ::
  "('fs, 't) lib \<Rightarrow> string \<Rightarrow> 't RoundTripper option \<Rightarrow> 'fs \<Rightarrow> 't cacheRoundTripper result \<times> 'fs" where
  "NewRoundTripper L dir orig f =
     (if dir = '''' then (Err (Errorf ''cache directory is required''), f)
      else case os_MkdirAll L dir 493 f of
             (Some err, f') \<Rightarrow> (Err (Wrapf ''create cache directory: '' err), f')
           | (None, f') \<Rightarrow>
               (Ok \<lparr>original = Some (case orig of None \<Rightarrow> http_DefaultTransport L | Some t \<Rightarrow> t),
                    cacheDir = dir\<rparr>, f'))"

text \<open>
  \<open>AddCacheRoundTripper\<close>: the host transport is a pointer to an \<open>http.Transport\<close>, here
  its table of registered protocols (\<open>None\<close> is nil). The result is the returned error
  (\<open>Ok None\<close> is a nil error), the host transport afterwards and the file system.
\<close>

definition AddCacheRoundTripper ::
  "('fs, 't) lib \<Rightarrow> string \<Rightarrow> 't RoundTripper option \<Rightarrow> (string \<rightharpoonup> 't cacheRoundTripper) option \<Rightarrow> 'fs
     \<Rightarrow> unit result \<times> (string \<rightharpoonup> 't cacheRoundTripper) option \<times> 'fs" where
  "AddCacheRoundTripper L dir orig transport f =
     (case transport of
        None \<Rightarrow> (Err (Errorf ''transport is nil''), transport, f)
      | Some protocols \<Rightarrow>
          (case NewRoundTripper L dir orig f of
             (Err err, f') \<Rightarrow> (Err err, transport, f')
           | (Panic m, f') \<Rightarrow> (Panic m, transport, f')
           | (Ok rt, f') \<Rightarrow>
               (case RegisterProtocol ''cache'' rt protocols of
                  None \<Rightarrow> (Panic ''protocol cache already registered'', transport, f')
                | Some p1 \<Rightarrow>
                    (case RegisterProtocol ''cachez'' rt p1 of
                       None \<Rightarrow> (Panic ''protocol cachez already registered'', Some p1, f')
                     | Some p2 \<Rightarrow> (Ok (), Some p2, f')))))"

definition cloneURL :: "url \<Rightarrow> url" where
  "cloneURL u = u"

definition cachePathForURL :: "('fs, 't) lib \<Rightarrow> 't cacheRoundTripper \<Rightarrow> url \<Rightarrow> string" where
  "cachePathForURL L c u =
     (let keyURL = cloneURL u;
          keyURL = (if Scheme keyURL = ''cache'' \<or> Scheme keyURL = ''cachez''
                    then keyURL\<lparr>Scheme := ''http''\<rparr> else keyURL);
          hash = sha256_Sum256 L (url_String L keyURL)
      in filepath_Join L (cacheDir c) (hex_EncodeToString hash))"

definition readCacheFile :: "('fs, 't) lib \<Rightarrow> string \<Rightarrow> 'fs \<Rightarrow> error + (bytes \<times> fileinfo)" where
  "readCacheFile L path f =
     (case os_Stat L path f of
        Inl err \<Rightarrow> Inl err
      | Inr info \<Rightarrow>
          (case os_ReadFile L path f of
             Inl err \<Rightarrow> Inl err
           | Inr dat \<Rightarrow> Inr (dat, info)))"

definition writeCacheFile :: "('fs, 't) lib \<Rightarrow> string \<Rightarrow> bytes \<Rightarrow> 'fs \<Rightarrow> error option \<times> 'fs" where
  "writeCacheFile L path dat f =
     (let tmpPath = path @ ''.tmp''
      in case os_WriteFile L tmpPath dat 420 f of
           (Some err, f') \<Rightarrow> (Some err, f')
         | (None, f') \<Rightarrow> os_Rename L tmpPath path f')"

definition cachedResponse :: "nat \<Rightarrow> bytes \<Rightarrow> response" where
  "cachedResponse req b =
     \<lparr>StatusCode = StatusOK,
      Status = ''200 OK'',
      Body = NopCloser_NewReader b,
      ResponseHeader = [''X-HTTP-Cache'' \<mapsto> [''HIT'']],
      ContentLength = int (length b),
      Request = Some req\<rparr>"

definition unwrapScheme :: "('fs, 't) lib \<Rightarrow> url \<Rightarrow> string \<Rightarrow> error + url" where
  "unwrapScheme L u scheme =
     (let raw = url_String L u;
          prefix = scheme @ '':''
      in if \<not> strings_HasPrefix raw prefix
         then Inl (Errorf (''url does not start with '' @ prefix @ '' prefix''))
         else let targetRaw = strings_TrimPrefix raw prefix
              in if targetRaw = ''''
                 then Inl (Errorf (''missing downstream URL after '' @ prefix @ '' prefix''))
                 else case url_Parse L targetRaw of
                        Inl err \<Rightarrow> Inl (Wrapf ''parse downstream URL: '' err)
                      | Inr targetURL \<Rightarrow>
                          if Scheme targetURL = ''''
                          then Inl (Errorf ''downstream URL must include scheme'')
                          else Inr targetURL)"

text \<open>
  \<open>drainAndClose\<close> takes the body as an interface value (\<open>None\<close> is nil) and leaves it
  read to the end and closed; the result is the body afterwards.
\<close>

definition drainAndClose :: "body option \<Rightarrow> body option" where
  "drainAndClose b =
     (case b of
        None \<Rightarrow> None
      | Some rc \<Rightarrow> Some (rc\<lparr>data := [], closed := True\<rparr>))"

text \<open>
  Lines 84 to 89 of \<open>roundTripWithValidation\<close>: the upstream request is a clone of the
  caller's request, retargeted at the destination; the conditional header is set on the
  clone's header map. \<open>cache\<close> is \<open>Some (cachedBody, cachedInfo)\<close> when \<open>hasCache\<close>
  holds. The result is the pointer \<open>upstreamReq\<close> and the store.
\<close>

definition upstreamRequest ::
  "('fs, 't) lib \<Rightarrow> nat \<Rightarrow> url \<Rightarrow> (bytes \<times> fileinfo) option \<Rightarrow> heap \<Rightarrow> nat \<times> heap" where
  "upstreamRequest L req downstreamURL cache h =
     (let (upstreamReq, h1) = Request_Clone req h;
          h2 = h1\<lparr>req_at := (req_at h1)(upstreamReq := (req_at h1 upstreamReq)\<lparr>URL := downstreamURL\<rparr>)\<rparr>;
          hp = Header (req_at h2 upstreamReq)
      in case cache of
           Some (_, cachedInfo) \<Rightarrow>
             if Header_Get L (hdr_at h2 hp) ''If-Modified-Since'' = ''''
             then (upstreamReq,
                   h2\<lparr>hdr_at := (hdr_at h2)(hp :=
                        Header_Set L (hdr_at h2 hp) ''If-Modified-Since''
                          (time_Format L (time_UTC (ModTime cachedInfo)) http_TimeFormat))\<rparr>)
             else (upstreamReq, h2)
         | None \<Rightarrow> (upstreamReq, h2))"

text \<open>
  Lines 84 to 126 of \<open>roundTripWithValidation\<close>: what follows the reading of the cache.
  When \<open>hasCache\<close> does not hold, \<open>cachedBody\<close> is Go's nil slice.
\<close>

definition roundTripWithValidation_upstream ::
  "('fs, 't) lib \<Rightarrow> 't cacheRoundTripper \<Rightarrow> nat \<Rightarrow> url \<Rightarrow> string \<Rightarrow> (bytes \<times> fileinfo) option
     \<Rightarrow> ('fs, 't) world \<Rightarrow> response result \<times> ('fs, 't) world" where
  "roundTripWithValidation_upstream L c req downstreamURL cachePath cache w =
     (let hasCache = (cache \<noteq> None);
          cachedBody = (case cache of Some (b, _) \<Rightarrow> b | None \<Rightarrow> []);
          (upstreamReq, h3) = upstreamRequest L req downstreamURL cache (heap w);
          w3 = w\<lparr>heap := h3\<rparr>
      in case original c of
           None \<Rightarrow> (Panic ''invalid memory address or nil pointer dereference'', w3)
         | Some T \<Rightarrow>
             (let (res, w4) = invoke T upstreamReq w3
              in case res of
                   Inl err \<Rightarrow>
                     if hasCache then (Ok (cachedResponse req cachedBody), w4)
                     else (Err err, w4)
                 | Inr resp \<Rightarrow>
                     if hasCache \<and> StatusCode resp = StatusNotModified
                     then (let _ = drainAndClose (Some (Body resp))
                           in (Ok (cachedResponse req cachedBody), w4))
                     else if StatusCode resp \<ge> StatusOK \<and> StatusCode resp < StatusMultipleChoices
                     then (let (b, readErr) = io_ReadAll (Body resp);
                               _ = drainAndClose (Some (Body resp))
                           in case readErr of
                                Some rerr \<Rightarrow>
                                  if hasCache then (Ok (cachedResponse req cachedBody), w4)
                                  else (Err rerr, w4)
                              | None \<Rightarrow>
                                  (let (_, f') = writeCacheFile L cachePath b (fs w4)
                                   in (Ok (resp\<lparr>Body := NopCloser_NewReader b,
                                                ContentLength := int (length b)\<rparr>),
                                       w4\<lparr>fs := f'\<rparr>)))
                     else if hasCache
                     then (let _ = drainAndClose (Some (Body resp))
                           in (Ok (cachedResponse req cachedBody), w4))
                     else (Ok resp, w4)))"

definition roundTripWithValidation ::
  "('fs, 't) lib \<Rightarrow> 't cacheRoundTripper \<Rightarrow> nat \<Rightarrow> ('fs, 't) world \<Rightarrow> response result \<times> ('fs, 't) world" where
  "roundTripWithValidation L c req w =
     (case unwrapScheme L (URL (req_at (heap w) req)) ''cache'' of
        Inl err \<Rightarrow> (Err err, w)
      | Inr downstreamURL \<Rightarrow>
          (let cachePath = cachePathForURL L c downstreamURL
           in case readCacheFile L cachePath (fs w) of
                Inl cacheErr \<Rightarrow>
                  if \<not> errors_Is cacheErr ErrNotExist then (Err cacheErr, w)
                  else roundTripWithValidation_upstream L c req downstreamURL cachePath None w
              | Inr (cachedBody, cachedInfo) \<Rightarrow>
                  roundTripWithValidation_upstream L c req downstreamURL cachePath
                    (Some (cachedBody, cachedInfo)) w))"

definition roundTripCacheOnly ::
  "('fs, 't) lib \<Rightarrow> 't cacheRoundTripper \<Rightarrow> nat \<Rightarrow> ('fs, 't) world \<Rightarrow> response result \<times> ('fs, 't) world" where
  "roundTripCacheOnly L c req w =
     (case unwrapScheme L (URL (req_at (heap w) req)) ''cachez'' of
        Inl err \<Rightarrow> (Err err, w)
      | Inr downstreamURL \<Rightarrow>
          (let cachePath = cachePathForURL L c downstreamURL
           in case readCacheFile L cachePath (fs w) of
                Inl err \<Rightarrow>
                  if errors_Is err ErrNotExist
                  then (Err (Errorf (''cache miss for '' @ url_String L downstreamURL)), w)
                  else (Err err, w)
              | Inr (cachedBody, _) \<Rightarrow> (Ok (cachedResponse req cachedBody), w)))"

definition RoundTrip ::
  "('fs, 't) lib \<Rightarrow> 't cacheRoundTripper \<Rightarrow> nat \<Rightarrow> ('fs, 't) world \<Rightarrow> response result \<times> ('fs, 't) world" where
  "RoundTrip L c req w =
     (case original c of
        None \<Rightarrow> (Err (Errorf ''original RoundTripper is not set''), w)
      | Some T \<Rightarrow>
          (let scheme = Scheme (URL (req_at (heap w) req))
           in if scheme = ''cache'' then roundTripWithValidation L c req w
              else if scheme = ''cachez'' then roundTripCacheOnly L c req w
              else (case invoke T req w of
                      (Inl err, w') \<Rightarrow> (Err err, w')
                    | (Inr resp, w') \<Rightarrow> (Ok resp, w'))))"

section \<open>Concrete collaborators for the examples\<close>

text \<open>
  The transport double of the package's tests: it counts its calls and answers with
  \<open>roundTripFunc\<close> when that is set, else with an empty 200 response.
\<close>

record mockRoundTripper =
  callCount :: int
  roundTripFunc :: "(nat \<Rightarrow> heap \<Rightarrow> error + response) option"

definition mock_RoundTrip :: "mockRoundTripper RoundTripper" where
  "mock_RoundTrip req h m =
     (case roundTripFunc m of
        Some f \<Rightarrow> f req h
      | None \<Rightarrow> Inr \<lparr>StatusCode = StatusOK, Status = [], Body = http_NoBody,
                      ResponseHeader = Map.empty, ContentLength = 0, Request = Some req\<rparr>,
      m\<lparr>callCount := callCount m + 1\<rparr>)"

text \<open>
  A file system in memory: a list of paths with their bytes and modification times. A
  missing path is reported the way \<open>os\<close> does, as a path error wrapping
  \<open>os.ErrNotExist\<close>.
\<close>

type_synonym memfs = "(string \<times> bytes \<times> time) list"

definition mem_now :: time where
  "mem_now = \<lparr>unix_sec = 1767323045, nsec = 0, location = ''Local''\<rparr>"

definition mem_Stat :: "string \<Rightarrow> memfs \<Rightarrow> error + fileinfo" where
  "mem_Stat p f =
     (case map_of f p of
        None \<Rightarrow> Inl (PathError ''stat'' p ErrNotExist)
      | Some (_, t) \<Rightarrow> Inr \<lparr>ModTime = t\<rparr>)"

definition mem_ReadFile :: "string \<Rightarrow> memfs \<Rightarrow> error + bytes" where
  "mem_ReadFile p f =
     (case map_of f p of
        None \<Rightarrow> Inl (PathError ''open'' p ErrNotExist)
      | Some (d, _) \<Rightarrow> Inr d)"

definition mem_WriteFile :: "string \<Rightarrow> bytes \<Rightarrow> nat \<Rightarrow> memfs \<Rightarrow> error option \<times> memfs" where
  "mem_WriteFile p d perm f = (None, (p, d, mem_now) # filter (\<lambda>e. fst e \<noteq> p) f)"

definition mem_Rename :: "string \<Rightarrow> string \<Rightarrow> memfs \<Rightarrow> error option \<times> memfs" where
  "mem_Rename old new f =
     (case map_of f old of
        None \<Rightarrow> (Some (PathError ''rename'' old ErrNotExist), f)
      | Some e \<Rightarrow> (None, (new, e) # filter (\<lambda>e. fst e \<noteq> old \<and> fst e \<noteq> new) f))"

definition mem_MkdirAll :: "string \<Rightarrow> nat \<Rightarrow> memfs \<Rightarrow> error option \<times> memfs" where
  "mem_MkdirAll p perm f = (None, f)"

text \<open>
  URLs of the two shapes the examples use, \<open>scheme:opaque\<close> and \<open>scheme://host/path\<close>,
  parsed and serialized as \<open>net/url\<close> does for them.
\<close>

definition url_zero :: url where
  "url_zero = \<lparr>Scheme = [], Opaque = [], User = None, Host = [], Path = [], RawPath = [],
               OmitHost = False, ForceQuery = False, RawQuery = [], Fragment = [],
               RawFragment = []\<rparr>"

definition simple_Parse :: "string \<Rightarrow> error + url" where
  "simple_Parse s =
     (let sch = takeWhile (\<lambda>c. c \<noteq> CHR '':'') s;
          rest = drop (Suc (length sch)) s
      in if CHR '':'' \<notin> set s then Inr (url_zero\<lparr>Path := s\<rparr>)
         else if sch = [] then Inl (OtherError ''missing protocol scheme'')
         else if take 2 rest = ''//''
         then (let host = takeWhile (\<lambda>c. c \<noteq> CHR ''/'') (drop 2 rest)
               in Inr (url_zero\<lparr>Scheme := sch, Host := host,
                                 Path := drop (length host) (drop 2 rest)\<rparr>))
         else Inr (url_zero\<lparr>Scheme := sch, Opaque := rest\<rparr>))"

definition simple_String :: "url \<Rightarrow> string" where
  "simple_String u =
     (if Scheme u = [] then Path u
      else Scheme u @ '':'' @ (if Opaque u \<noteq> [] then Opaque u else ''//'' @ Host u @ Path u))"

text \<open>The formatter of the examples knows the one instant the package's test uses.\<close>

definition simple_Format :: "time \<Rightarrow> string \<Rightarrow> string" where
  "simple_Format t layout =
     (if unix_sec t = 1767323045 then ''Fri, 02 Jan 2026 03:04:05 GMT''
      else ''Thu, 01 Jan 1970 00:00:00 GMT'')"

text \<open>
  The library of the examples. The digest is a stand-in for SHA-256 (the bytes
  reversed); header names in the examples are canonical already.
\<close>

definition example_lib :: "(memfs, mockRoundTripper) lib" where
  "example_lib =
     \<lparr>url_String = simple_String,
      url_Parse = simple_Parse,
      sha256_Sum256 = rev,
      filepath_Join = (\<lambda>d n. d @ ''/'' @ n),
      os_Stat = mem_Stat,
      os_ReadFile = mem_ReadFile,
      os_WriteFile = mem_WriteFile,
      os_Rename = mem_Rename,
      os_MkdirAll = mem_MkdirAll,
      time_Format = simple_Format,
      CanonicalMIMEHeaderKey = (\<lambda>k. k),
      http_DefaultTransport = mock_RoundTrip\<rparr>"

definition example_rt :: "mockRoundTripper cacheRoundTripper" where
  "example_rt = \<lparr>original = Some mock_RoundTrip, cacheDir = ''c''\<rparr>"

text \<open>
  The caller's request of the tests, \<open>GET cache:https://example.com/data\<close> (or the same
  under another scheme), at address 0 of the store with its headers at address 0.
\<close>

definition example_heap :: "string \<Rightarrow> header \<Rightarrow> heap" where
  "example_heap scheme hs =
     \<lparr>req_at = (\<lambda>_. \<lparr>Method = ''GET'',
                      URL = url_zero\<lparr>Scheme := scheme, Opaque := ''https://example.com/data''\<rparr>,
                      Header = 0\<rparr>),
      hdr_at = (\<lambda>_. hs),
      next_req = 1,
      next_hdr = 1\<rparr>"

definition example_world ::
  "string \<Rightarrow> header \<Rightarrow> memfs \<Rightarrow> (nat \<Rightarrow> heap \<Rightarrow> error + response) option
     \<Rightarrow> (memfs, mockRoundTripper) world" where
  "example_world scheme hs f answer =
     \<lparr>heap = example_heap scheme hs,
      fs = f,
      ts = \<lparr>callCount = 0, roundTripFunc = answer\<rparr>,
      calls = []\<rparr>"

text \<open>
  The destination of the example request, the path of its cache entry under
  \<open>example_rt\<close>, and a file system holding that entry with the modification time of
  the package's test (2 January 2026, 03:04:05 UTC).
\<close>

definition example_dest :: url where
  "example_dest = url_zero\<lparr>Scheme := ''https'', Host := ''example.com'', Path := ''/data''\<rparr>"

definition example_path :: string where
  "example_path = ''c/617461642f6d6f632e656c706d6178652f2f3a7370747468''"

definition example_info :: fileinfo where
  "example_info = \<lparr>ModTime = \<lparr>unix_sec = 1767323045, nsec = 0, location = ''Local''\<rparr>\<rparr>"

definition example_fs :: memfs where
  "example_fs = [(example_path, ''cached-value'', ModTime example_info)]"

text \<open>Answers of the transport double: a transport error, or a response with a status and a body.\<close>

definition answer_error :: "(nat \<Rightarrow> heap \<Rightarrow> error + response) option" where
  "answer_error = Some (\<lambda>req h. Inl (OtherError ''connection refused''))"

definition answer_status :: "int \<Rightarrow> body \<Rightarrow> (nat \<Rightarrow> heap \<Rightarrow> error + response) option" where
  "answer_status code b =
     Some (\<lambda>req h. Inr \<lparr>StatusCode = code, Status = [], Body = b, ResponseHeader = Map.empty,
                         ContentLength = 0, Request = Some req\<rparr>)"

section \<open>The examples evaluated\<close>

lemma example_lib_simps [simp]:
  "url_String example_lib = simple_String"
  "url_Parse example_lib = simple_Parse"
  "os_Stat example_lib = mem_Stat"
  "os_ReadFile example_lib = mem_ReadFile"
  "time_Format example_lib = simple_Format"
  "CanonicalMIMEHeaderKey example_lib = (\<lambda>k. k)"
  by (simp_all add: example_lib_def)

lemma example_unwrap:
  assumes "url_String L = simple_String" and "url_Parse L = simple_Parse"
    and "s = ''cache'' \<or> s = ''cachez''"
  shows "unwrapScheme L (URL (req_at (heap (example_world s hs f ans)) 0)) s = Inr example_dest"
proof -
  have "simple_String (URL (req_at (heap (example_world s hs f ans)) 0))
          = s @ '':https://example.com/data''"
    using assms(3) by (auto simp: example_world_def example_heap_def simple_String_def url_zero_def)
  moreover have "simple_Parse ''https://example.com/data'' = Inr example_dest"
    by (simp add: simple_Parse_def example_dest_def)
  moreover have "Scheme example_dest \<noteq> []"
    by (simp add: example_dest_def url_zero_def)
  ultimately show ?thesis
    using assms by (auto simp: unwrapScheme_def Let_def strings_HasPrefix_def strings_TrimPrefix_def)
qed

lemma example_dest_String: "simple_String example_dest = ''https://example.com/data''"
  by (simp add: simple_String_def example_dest_def url_zero_def)

lemma example_key: "cachePathForURL example_lib example_rt example_dest = example_path"
  by (simp add: cachePathForURL_def cloneURL_def example_dest_def url_zero_def example_lib_def
        simple_String_def example_rt_def hex_EncodeToString_def hex_byte_def example_path_def)

lemma example_read_hit:
  "readCacheFile example_lib example_path (fs (example_world s hs example_fs ans))
     = Inr (''cached-value'', example_info)"
  by (simp add: readCacheFile_def example_world_def example_fs_def example_info_def
        mem_Stat_def mem_ReadFile_def)

lemma example_read_miss:
  "readCacheFile example_lib example_path (fs (example_world s hs [] ans))
     = Inl (PathError ''stat'' example_path ErrNotExist)"
  by (simp add: readCacheFile_def example_world_def mem_Stat_def)

lemma example_unwrap_cache:
  "unwrapScheme example_lib (URL (req_at (heap (example_world ''cache'' hs f ans)) 0)) ''cache''
     = Inr example_dest"
  by (simp add: example_unwrap)

lemma example_original: "original example_rt = Some mock_RoundTrip"
  by (simp add: example_rt_def)

lemma mock_answer: "fst (mock_RoundTrip a h (ts (example_world s hs f (Some g)))) = g a h"
  by (simp add: mock_RoundTrip_def example_world_def)

lemma example_cache_hit:
  "readCacheFile example_lib (cachePathForURL example_lib example_rt example_dest)
     (fs (example_world s hs example_fs ans)) = Inr (''cached-value'', example_info)"
  by (simp add: example_key example_read_hit)

lemma example_cache_miss:
  "readCacheFile example_lib (cachePathForURL example_lib example_rt example_dest)
     (fs (example_world s hs [] ans)) = Inl (PathError ''stat'' example_path ErrNotExist)"
  by (simp add: example_key example_read_miss)

section \<open>Facts about the library operations and the upstream request\<close>

lemma HasPrefix_TrimPrefix:
  "strings_HasPrefix s p \<Longrightarrow> s = p @ strings_TrimPrefix s p"
  unfolding strings_HasPrefix_def strings_TrimPrefix_def
  by (metis append_take_drop_id)

lemma upstreamRequest_eq:
  "upstreamRequest L req d cache h =
     (next_req h,
      h\<lparr>req_at := (req_at h)(next_req h := (req_at h req)\<lparr>Header := next_hdr h, URL := d\<rparr>),
        hdr_at := (hdr_at h)(next_hdr h :=
          (case cache of
             None \<Rightarrow> hdr_at h (Header (req_at h req))
           | Some (b, i) \<Rightarrow>
               if Header_Get L (hdr_at h (Header (req_at h req))) ''If-Modified-Since'' = ''''
               then Header_Set L (hdr_at h (Header (req_at h req))) ''If-Modified-Since''
                      (time_Format L (time_UTC (ModTime i)) http_TimeFormat)
               else hdr_at h (Header (req_at h req)))),
        next_req := Suc (next_req h),
        next_hdr := Suc (next_hdr h)\<rparr>)"
  by (cases cache) (auto simp: upstreamRequest_def Request_Clone_def Let_def)

lemma upstream_calls:
  assumes "original c = Some T"
    and "upstreamRequest L req d cache (heap w) = (a, h)"
  shows "calls (snd (roundTripWithValidation_upstream L c req d p cache w)) =
           calls w @ [\<lparr>call_req = a, call_URL = URL (req_at h a),
                        call_Header = hdr_at h (Header (req_at h a))\<rparr>]"
  using assms
  by (simp add: roundTripWithValidation_upstream_def invoke_def Let_def
        split: prod.splits sum.splits option.splits)

lemma upstream_calls_eq:
  assumes "original c = Some T"
  shows "calls (snd (roundTripWithValidation_upstream L c req d p cache w)) =
           calls w @ [\<lparr>call_req = next_req (heap w), call_URL = d,
                        call_Header =
                          (case cache of
                             None \<Rightarrow> hdr_at (heap w) (Header (req_at (heap w) req))
                           | Some (b, i) \<Rightarrow>
                               if Header_Get L (hdr_at (heap w) (Header (req_at (heap w) req)))
                                    ''If-Modified-Since'' = ''''
                               then Header_Set L (hdr_at (heap w) (Header (req_at (heap w) req)))
                                      ''If-Modified-Since''
                                      (time_Format L (time_UTC (ModTime i)) http_TimeFormat)
                               else hdr_at (heap w) (Header (req_at (heap w) req)))\<rparr>]"
  using upstream_calls [OF assms upstreamRequest_eq] by simp

lemma upstream_heap:
  "heap (snd (roundTripWithValidation_upstream L c req d p cache w))
     = snd (upstreamRequest L req d cache (heap w))"
  by (simp add: roundTripWithValidation_upstream_def invoke_def Let_def
        split: prod.splits sum.splits option.splits)

lemma upstream_calls_new:
  "drop (length (calls w)) (calls (snd (roundTripWithValidation_upstream L c req d p cache w))) =
     (case original c of
        None \<Rightarrow> []
      | Some T \<Rightarrow> [\<lparr>call_req = next_req (heap w), call_URL = d,
                      call_Header = hdr_at (snd (upstreamRequest L req d cache (heap w))) (next_hdr (heap w))\<rparr>])"
proof (cases "original c")
  case None
  then show ?thesis
    by (simp add: roundTripWithValidation_upstream_def Let_def split: prod.splits)
next
  case (Some T)
  show ?thesis
    using Some by (cases cache) (auto simp: upstream_calls_eq [OF Some] upstreamRequest_eq)
qed

lemma upstream_result:
  assumes "fst (roundTripWithValidation_upstream L c req d p cache w) = Ok resp"
  shows "(\<exists>b. resp = cachedResponse req b)
       \<or> (\<exists>T up. original c = Some T
             \<and> fst (T (next_req (heap w)) (snd (upstreamRequest L req d cache (heap w))) (ts w)) = Inr up
             \<and> (resp = up \<or> resp = up\<lparr>Body := NopCloser_NewReader (fst (io_ReadAll (Body up))),
                                      ContentLength := int (length (fst (io_ReadAll (Body up))))\<rparr>))"
proof (cases "original c")
  case None
  with assms show ?thesis
    by (simp add: roundTripWithValidation_upstream_def Let_def split: prod.splits)
next
  case (Some T)
  obtain ans s' where t: "T (next_req (heap w)) (snd (upstreamRequest L req d cache (heap w))) (ts w) = (ans, s')"
    by fastforce
  show ?thesis
  proof (cases ans)
    case (Inl err)
    with assms Some t show ?thesis
      by (auto simp: roundTripWithValidation_upstream_def invoke_def Let_def upstreamRequest_eq
            split: if_splits)
  next
    case (Inr up)
    with assms Some t show ?thesis
      by (auto simp: roundTripWithValidation_upstream_def invoke_def Let_def upstreamRequest_eq
            split: if_splits prod.splits option.splits)
  qed
qed

section \<open>Configuration\<close>

text \<open>
  Claim C9, as stated, fails for the unset transport: constructing the round tripper with
  a cache directory and a nil transport succeeds, with the default transport in its
  place.
\<close>

theorem NewRoundTripper_unset_transport_succeeds:
  "fst (NewRoundTripper example_lib ''cache-dir'' None [])
     = Ok \<lparr>original = Some (http_DefaultTransport example_lib), cacheDir = ''cache-dir''\<rparr>"
  by (simp add: NewRoundTripper_def example_lib_def mem_MkdirAll_def)

text \<open>
  Claim C9, amended. Constructing the round tripper with an empty cache directory fails
  with an error, and so does registration with an empty cache directory or on a nil host
  transport. Constructing it with an unset transport does not fail when the directory
  can be created: the default transport is used. A round tripper whose transport is
  unset reports that as an error when a request is dispatched.
\<close>

theorem configuration_errors:
  "fst (NewRoundTripper L '''' orig f) = Err (Errorf ''cache directory is required'')
   \<and> fst (AddCacheRoundTripper L '''' orig (Some p) f) = Err (Errorf ''cache directory is required'')
   \<and> fst (AddCacheRoundTripper L dir orig None f) = Err (Errorf ''transport is nil'')
   \<and> (dir \<noteq> '''' \<and> fst (os_MkdirAll L dir 493 f) = None \<longrightarrow>
        fst (NewRoundTripper L dir None f)
          = Ok \<lparr>original = Some (http_DefaultTransport L), cacheDir = dir\<rparr>)
   \<and> (original c = None \<longrightarrow>
        RoundTrip L c req w = (Err (Errorf ''original RoundTripper is not set''), w))"
  by (auto simp: NewRoundTripper_def AddCacheRoundTripper_def RoundTrip_def
        split: prod.splits option.splits)

theorem configuration_errors_witness:
  "''cache-dir'' \<noteq> '''' \<and> fst (os_MkdirAll example_lib ''cache-dir'' 493 []) = None
   \<and> fst (NewRoundTripper example_lib ''cache-dir'' None [])
       = Ok \<lparr>original = Some (http_DefaultTransport example_lib), cacheDir = ''cache-dir''\<rparr>
   \<and> original \<lparr>original = None, cacheDir = ''cache-dir''\<rparr> = (None :: mockRoundTripper RoundTripper option)
   \<and> RoundTrip example_lib \<lparr>original = None, cacheDir = ''cache-dir''\<rparr> 0
        (example_world ''cache'' Map.empty [] None)
       = (Err (Errorf ''original RoundTripper is not set''), example_world ''cache'' Map.empty [] None)"
proof -
  have m: "fst (os_MkdirAll example_lib ''cache-dir'' 493 []) = None"
    by (simp add: example_lib_def mem_MkdirAll_def)
  show ?thesis
    using configuration_errors [where L = example_lib and f = "[]" and dir = "''cache-dir''" and c =
            "\<lparr>original = None, cacheDir = ''cache-dir''\<rparr>" and req = 0
            and w = "example_world ''cache'' Map.empty [] None"]
    by (simp add: m)
qed

section \<open>URL unwrapping and cache keys\<close>

text \<open>
  Claim C8. \<open>unwrapScheme\<close> returns an error exactly when the serialized URL does not
  begin with \<open>scheme:\<close>, or the remainder after that prefix is empty, or the remainder
  fails to parse, or the parsed remainder has an empty scheme. Otherwise the serialized
  URL is the prefix followed by the remainder, and the result is the parsed remainder.
  The function reads its two arguments only: it takes no world and returns none.
\<close>

theorem unwrapScheme_fails_iff:
  "((\<exists>err. unwrapScheme L u scheme = Inl err) \<longleftrightarrow>
      (\<not> strings_HasPrefix (url_String L u) (scheme @ '':'')
       \<or> strings_TrimPrefix (url_String L u) (scheme @ '':'') = ''''
       \<or> (\<exists>err. url_Parse L (strings_TrimPrefix (url_String L u) (scheme @ '':'')) = Inl err)
       \<or> (\<exists>t. url_Parse L (strings_TrimPrefix (url_String L u) (scheme @ '':'')) = Inr t
                \<and> Scheme t = '''')))
   \<and> ((\<forall>err. unwrapScheme L u scheme \<noteq> Inl err) \<longrightarrow>
        url_String L u = (scheme @ '':'') @ strings_TrimPrefix (url_String L u) (scheme @ '':'')
        \<and> unwrapScheme L u scheme
            = url_Parse L (strings_TrimPrefix (url_String L u) (scheme @ '':'')))"
proof -
  let ?raw = "url_String L u" and ?prefix = "scheme @ '':''"
  let ?target = "strings_TrimPrefix ?raw ?prefix"
  show ?thesis
  proof (cases "strings_HasPrefix ?raw ?prefix \<and> ?target \<noteq> ''''")
    case False
    then show ?thesis
      by (auto simp: unwrapScheme_def Let_def)
  next
    case True
    then have raw: "?raw = ?prefix @ ?target"
      using HasPrefix_TrimPrefix by blast
    show ?thesis
    proof (cases "url_Parse L ?target")
      case (Inl err)
      with True show ?thesis by (simp add: unwrapScheme_def Let_def)
    next
      case (Inr t)
      with True raw show ?thesis by (simp add: unwrapScheme_def Let_def)
    qed
  qed
qed

theorem unwrapScheme_fails_iff_witness:
  "unwrapScheme example_lib (url_zero\<lparr>Scheme := ''cache'', Opaque := ''https://example.com/data''\<rparr>) ''cache''
     = Inr example_dest
   \<and> strings_HasPrefix ''cache:https://example.com/data'' ''cache:''
   \<and> strings_TrimPrefix ''cache:https://example.com/data'' ''cache:'' = ''https://example.com/data''
   \<and> unwrapScheme example_lib (url_zero\<lparr>Scheme := ''cachez'', Opaque := ''https://example.com/data''\<rparr>) ''cache''
     = Inl (Errorf ''url does not start with cache: prefix'')
   \<and> unwrapScheme example_lib (url_zero\<lparr>Scheme := ''cache'', Host := ''example.com'', Path := ''/''\<rparr>) ''cache''
     = Inl (Errorf ''downstream URL must include scheme'')"
proof -
  let ?u1 = "url_zero\<lparr>Scheme := ''cache'', Opaque := ''https://example.com/data''\<rparr>"
  let ?u2 = "url_zero\<lparr>Scheme := ''cachez'', Opaque := ''https://example.com/data''\<rparr>"
  let ?u3 = "url_zero\<lparr>Scheme := ''cache'', Host := ''example.com'', Path := ''/''\<rparr>"
  have s: "simple_String ?u1 = ''cache:https://example.com/data''"
          "simple_String ?u2 = ''cachez:https://example.com/data''"
          "simple_String ?u3 = ''cache://example.com/''"
    by (simp_all add: simple_String_def url_zero_def)
  have t: "strings_HasPrefix ''cache:https://example.com/data'' ''cache:''"
          "strings_TrimPrefix ''cache:https://example.com/data'' ''cache:'' = ''https://example.com/data''"
          "\<not> strings_HasPrefix ''cachez:https://example.com/data'' ''cache:''"
          "strings_HasPrefix ''cache://example.com/'' ''cache:''"
          "strings_TrimPrefix ''cache://example.com/'' ''cache:'' = ''//example.com/''"
    by (simp_all add: strings_HasPrefix_def strings_TrimPrefix_def)
  have p: "simple_Parse ''https://example.com/data'' = Inr example_dest"
          "simple_Parse ''//example.com/'' = Inr (url_zero\<lparr>Path := ''//example.com/''\<rparr>)"
    by (simp_all add: simple_Parse_def example_dest_def)
  have e: "Scheme example_dest \<noteq> []" "Scheme (url_zero\<lparr>Path := ''//example.com/''\<rparr>) = []"
    by (simp_all add: example_dest_def url_zero_def)
  have r2: "unwrapScheme example_lib ?u2 ''cache'' = Inl (Errorf ''url does not start with cache: prefix'')"
   and r3: "unwrapScheme example_lib ?u3 ''cache'' = Inl (Errorf ''downstream URL must include scheme'')"
    by (simp_all add: unwrapScheme_def Let_def s t p e)
  show ?thesis
    using unwrapScheme_fails_iff [of example_lib ?u1 "''cache''"]
          unwrapScheme_fails_iff [of example_lib ?u2 "''cache''"]
          unwrapScheme_fails_iff [of example_lib ?u3 "''cache''"]
    by (simp add: s t p e r2 r3)
qed

text \<open>
  Claim C3. When one destination \<open>t\<close> is wrapped under either synthetic marker, so that
  one URL serializes to \<open>cache:t\<close> and the other to \<open>cachez:t\<close>, unwrapping under the
  validating marker followed by the key derivation gives the same outcome as unwrapping
  under the cache-only marker followed by the key derivation: both fail, or both give
  the same storage path. The key derivation maps a destination whose own scheme is
  \<open>cache\<close> or \<open>cachez\<close> to the path of the same destination under \<open>http\<close>.
\<close>

theorem cache_key_shared_by_modes:
  "(url_String L u1 = ''cache:'' @ t \<and> url_String L u2 = ''cachez:'' @ t \<longrightarrow>
      map_sum (\<lambda>_. ()) (cachePathForURL L c) (unwrapScheme L u1 ''cache'')
        = map_sum (\<lambda>_. ()) (cachePathForURL L c) (unwrapScheme L u2 ''cachez''))
   \<and> cachePathForURL L c (d\<lparr>Scheme := ''cache''\<rparr>) = cachePathForURL L c (d\<lparr>Scheme := ''http''\<rparr>)
   \<and> cachePathForURL L c (d\<lparr>Scheme := ''cachez''\<rparr>) = cachePathForURL L c (d\<lparr>Scheme := ''http''\<rparr>)"
  by (auto simp: unwrapScheme_def Let_def strings_TrimPrefix_def strings_HasPrefix_def
        cachePathForURL_def cloneURL_def split: sum.splits)

theorem cache_key_shared_by_modes_witness:
  "url_String example_lib (url_zero\<lparr>Scheme := ''cache'', Opaque := ''https://example.com/data''\<rparr>)
     = ''cache:'' @ ''https://example.com/data''
   \<and> url_String example_lib (url_zero\<lparr>Scheme := ''cachez'', Opaque := ''https://example.com/data''\<rparr>)
     = ''cachez:'' @ ''https://example.com/data''
   \<and> map_sum (\<lambda>_. ()) (cachePathForURL example_lib example_rt)
        (unwrapScheme example_lib (url_zero\<lparr>Scheme := ''cache'', Opaque := ''https://example.com/data''\<rparr>) ''cache'')
     = Inr example_path
   \<and> map_sum (\<lambda>_. ()) (cachePathForURL example_lib example_rt)
        (unwrapScheme example_lib (url_zero\<lparr>Scheme := ''cachez'', Opaque := ''https://example.com/data''\<rparr>) ''cachez'')
     = Inr example_path"
proof -
  let ?u1 = "url_zero\<lparr>Scheme := ''cache'', Opaque := ''https://example.com/data''\<rparr>"
  let ?u2 = "url_zero\<lparr>Scheme := ''cachez'', Opaque := ''https://example.com/data''\<rparr>"
  have s: "simple_String ?u1 = ''cache:https://example.com/data''"
          "simple_String ?u2 = ''cachez:https://example.com/data''"
    by (simp_all add: simple_String_def url_zero_def)
  have p: "simple_Parse ''https://example.com/data'' = Inr example_dest"
    by (simp add: simple_Parse_def example_dest_def)
  have e: "Scheme example_dest \<noteq> []"
    by (simp add: example_dest_def url_zero_def)
  have r: "unwrapScheme example_lib ?u1 ''cache'' = Inr example_dest"
    by (simp add: unwrapScheme_def Let_def s p e strings_HasPrefix_def strings_TrimPrefix_def)
  show ?thesis
    using cache_key_shared_by_modes [of example_lib ?u1 "''https://example.com/data''" ?u2 example_rt]
    by (simp add: s r example_key)
qed

section \<open>Validating Fetch\<close>

text \<open>
  Claim C7, as stated, fails in its only-if direction: a caller who has set
  \<open>If-Modified-Since\<close> to the empty value has set the header, yet with a cache entry the
  upstream request carries the entry's modification time in its place.
\<close>

theorem conditional_header_overwrites_empty_value:
  "hdr_at (heap (example_world ''cache'' [''If-Modified-Since'' \<mapsto> ['''']] example_fs
                   (answer_status 304 http_NoBody)))
          (Header (req_at (heap (example_world ''cache'' [''If-Modified-Since'' \<mapsto> ['''']] example_fs
                                   (answer_status 304 http_NoBody))) 0))
          ''If-Modified-Since'' = Some ['''']
   \<and> calls (snd (roundTripWithValidation example_lib example_rt 0
                 (example_world ''cache'' [''If-Modified-Since'' \<mapsto> ['''']] example_fs
                    (answer_status 304 http_NoBody))))
     = [\<lparr>call_req = 1, call_URL = example_dest,
          call_Header = [''If-Modified-Since'' \<mapsto> [''Fri, 02 Jan 2026 03:04:05 GMT'']]\<rparr>]"
proof -
  let ?w = "example_world ''cache'' [''If-Modified-Since'' \<mapsto> ['''']] example_fs
              (answer_status 304 http_NoBody)"
  have eq: "roundTripWithValidation example_lib example_rt 0 ?w =
              roundTripWithValidation_upstream example_lib example_rt 0 example_dest
                (cachePathForURL example_lib example_rt example_dest)
                (Some (''cached-value'', example_info)) ?w"
    by (simp add: roundTripWithValidation_def example_unwrap_cache example_cache_hit)
  have h: "hdr_at (heap ?w) (Header (req_at (heap ?w) 0)) = [''If-Modified-Since'' \<mapsto> ['''']]"
          "next_req (heap ?w) = 1" "calls ?w = []"
    by (simp_all add: example_world_def example_heap_def)
  have f: "simple_Format (time_UTC (ModTime example_info)) http_TimeFormat
             = ''Fri, 02 Jan 2026 03:04:05 GMT''"
    by (simp add: simple_Format_def time_UTC_def example_info_def)
  show ?thesis
    unfolding eq
    by (simp add: upstream_calls_eq [OF example_original] h f Header_Get_def Header_Set_def)
qed

text \<open>
  Claim C7, amended. In a Validating Fetch that reaches the transport (the URL unwraps to
  \<open>d\<close> and reading the cache gives an entry or not-found), the transport is called exactly
  once, with a new request aimed at \<open>d\<close>. With \<open>H\<close> the caller's headers, the headers of
  that request are \<open>H\<close> with \<open>If-Modified-Since\<close> set to the entry's modification time,
  converted to UTC and formatted with \<open>http.TimeFormat\<close>, if and only if an entry exists
  and \<open>Header.Get\<close> gives the empty string for that header on the caller's request (the
  header is absent, or its first value is empty); in every other case they are
  exactly \<open>H\<close>.
\<close>

theorem conditional_header_attached:
  assumes "unwrapScheme L (URL (req_at (heap w) req)) ''cache'' = Inr d"
    and "original c = Some T"
    and "readCacheFile L (cachePathForURL L c d) (fs w) = rd"
    and "case rd of Inl e \<Rightarrow> errors_Is e ErrNotExist | Inr _ \<Rightarrow> True"
    and "H = hdr_at (heap w) (Header (req_at (heap w) req))"
  shows "calls (snd (roundTripWithValidation L c req w)) =
           calls w @ [\<lparr>call_req = next_req (heap w), call_URL = d,
                        call_Header =
                          (case rd of
                             Inl _ \<Rightarrow> H
                           | Inr (b, i) \<Rightarrow>
                               if Header_Get L H ''If-Modified-Since'' = ''''
                               then Header_Set L H ''If-Modified-Since''
                                      (time_Format L (time_UTC (ModTime i)) http_TimeFormat)
                               else H)\<rparr>]"
proof (cases rd)
  case (Inl e)
  with assms have "roundTripWithValidation L c req w =
      roundTripWithValidation_upstream L c req d (cachePathForURL L c d) None w"
    by (simp add: roundTripWithValidation_def)
  then show ?thesis
    unfolding assms(5) using Inl by (simp add: upstream_calls_eq [OF assms(2)])
next
  case (Inr x)
  obtain b i where x: "x = (b, i)" by (cases x)
  with Inr assms have "roundTripWithValidation L c req w =
      roundTripWithValidation_upstream L c req d (cachePathForURL L c d) (Some (b, i)) w"
    by (simp add: roundTripWithValidation_def)
  then show ?thesis
    unfolding assms(5) using Inr x by (simp add: upstream_calls_eq [OF assms(2)])
qed

theorem conditional_header_attached_witness:
  "calls (snd (roundTripWithValidation example_lib example_rt 0
                 (example_world ''cache'' Map.empty example_fs (answer_status 304 http_NoBody))))
     = [\<lparr>call_req = 1, call_URL = example_dest,
          call_Header = [''If-Modified-Since'' \<mapsto> [''Fri, 02 Jan 2026 03:04:05 GMT'']]\<rparr>]
   \<and> calls (snd (roundTripWithValidation example_lib example_rt 0
                 (example_world ''cache'' [''If-Modified-Since'' \<mapsto> [''Thu, 01 Jan 2026 00:00:00 GMT'']]
                    example_fs (answer_status 304 http_NoBody))))
     = [\<lparr>call_req = 1, call_URL = example_dest,
          call_Header = [''If-Modified-Since'' \<mapsto> [''Thu, 01 Jan 2026 00:00:00 GMT'']]\<rparr>]
   \<and> calls (snd (roundTripWithValidation example_lib example_rt 0
                 (example_world ''cache'' Map.empty [] (answer_status 200 (NopCloser_NewReader ''fresh'')))))
     = [\<lparr>call_req = 1, call_URL = example_dest, call_Header = Map.empty\<rparr>]"
proof -
  let ?set = "[''If-Modified-Since'' \<mapsto> [''Thu, 01 Jan 2026 00:00:00 GMT'']]"
  let ?w1 = "example_world ''cache'' Map.empty example_fs (answer_status 304 http_NoBody)"
  let ?w2 = "example_world ''cache'' ?set example_fs (answer_status 304 http_NoBody)"
  let ?w3 = "example_world ''cache'' Map.empty [] (answer_status 200 (NopCloser_NewReader ''fresh''))"
  note u = example_unwrap_cache
  note o = example_original
  have n: "case (Inr (''cached-value'', example_info) :: error + bytes \<times> fileinfo) of
             Inl e \<Rightarrow> errors_Is e ErrNotExist | Inr _ \<Rightarrow> True"
          "case (Inl (PathError ''stat'' example_path ErrNotExist) :: error + bytes \<times> fileinfo) of
             Inl e \<Rightarrow> errors_Is e ErrNotExist | Inr _ \<Rightarrow> True"
    by simp_all
  have h: "Map.empty = hdr_at (heap ?w1) (Header (req_at (heap ?w1) 0))"
          "?set = hdr_at (heap ?w2) (Header (req_at (heap ?w2) 0))"
          "Map.empty = hdr_at (heap ?w3) (Header (req_at (heap ?w3) 0))"
    by (simp_all add: example_world_def example_heap_def)
  have m: "next_req (heap (example_world s hs f ans)) = 1" "calls (example_world s hs f ans) = []" for s hs f ans
    by (simp_all add: example_world_def example_heap_def)
  have f: "simple_Format (time_UTC (ModTime example_info)) http_TimeFormat
             = ''Fri, 02 Jan 2026 03:04:05 GMT''"
    by (simp add: simple_Format_def time_UTC_def example_info_def)
  show ?thesis
    using conditional_header_attached [OF u o example_cache_hit n(1) h(1)]
          conditional_header_attached [OF u o example_cache_hit n(1) h(2)]
          conditional_header_attached [OF u o example_cache_miss n(2) h(3)]
    by (simp add: m f Header_Get_def Header_Set_def)
qed

text \<open>
  Claim C1. In a Validating Fetch whose URL unwraps to the destination \<open>d\<close>, let \<open>rd\<close> be
  the result of reading the cache entry and \<open>ans\<close> the transport's answer to the upstream
  request. When the entry exists (\<open>rd = Inr (b, i)\<close>) and the transport returns an
  error, or a response whose status is outside 200..299, the call returns the cached
  response synthesized from \<open>b\<close> and no error. When no entry exists (the read reports
  not-found), a transport error is returned to the caller, and a response whose status
  is outside 200..299 is returned as the transport gave it.
\<close>

theorem validation_falls_back_to_cache:
  assumes "unwrapScheme L (URL (req_at (heap w) req)) ''cache'' = Inr d"
    and "original c = Some T"
    and "readCacheFile L (cachePathForURL L c d) (fs w) = rd"
    and "upstreamRequest L req d (case rd of Inl _ \<Rightarrow> None | Inr x \<Rightarrow> Some x) (heap w) = (a, h)"
    and "fst (T a h (ts w)) = ans"
  shows "(\<forall>b i err. rd = Inr (b, i) \<and> ans = Inl err \<longrightarrow>
            fst (roundTripWithValidation L c req w) = Ok (cachedResponse req b))
       \<and> (\<forall>b i resp. rd = Inr (b, i) \<and> ans = Inr resp
                      \<and> \<not> (200 \<le> StatusCode resp \<and> StatusCode resp < 300) \<longrightarrow>
            fst (roundTripWithValidation L c req w) = Ok (cachedResponse req b))
       \<and> (\<forall>e err. rd = Inl e \<and> errors_Is e ErrNotExist \<and> ans = Inl err \<longrightarrow>
            fst (roundTripWithValidation L c req w) = Err err)
       \<and> (\<forall>e resp. rd = Inl e \<and> errors_Is e ErrNotExist \<and> ans = Inr resp
                    \<and> \<not> (200 \<le> StatusCode resp \<and> StatusCode resp < 300) \<longrightarrow>
            fst (roundTripWithValidation L c req w) = Ok resp)"
  using assms
  by (auto simp: roundTripWithValidation_def roundTripWithValidation_upstream_def invoke_def Let_def
        StatusOK_def StatusMultipleChoices_def StatusNotModified_def split: prod.splits sum.splits)

theorem validation_falls_back_to_cache_witness:
  "fst (roundTripWithValidation example_lib example_rt 0
          (example_world ''cache'' Map.empty example_fs answer_error))
     = Ok (cachedResponse 0 ''cached-value'')
   \<and> fst (roundTripWithValidation example_lib example_rt 0
          (example_world ''cache'' Map.empty example_fs
             (answer_status 500 (NopCloser_NewReader ''server-error''))))
     = Ok (cachedResponse 0 ''cached-value'')
   \<and> fst (roundTripWithValidation example_lib example_rt 0
          (example_world ''cache'' Map.empty [] answer_error))
     = Err (OtherError ''connection refused'')
   \<and> fst (roundTripWithValidation example_lib example_rt 0
          (example_world ''cache'' Map.empty []
             (answer_status 500 (NopCloser_NewReader ''server-error''))))
     = Ok \<lparr>StatusCode = 500, Status = [], Body = NopCloser_NewReader ''server-error'',
           ResponseHeader = Map.empty, ContentLength = 0, Request = Some 1\<rparr>"
proof -
  let ?b = "NopCloser_NewReader ''server-error''"
  let ?w1 = "example_world ''cache'' Map.empty example_fs answer_error"
  let ?w2 = "example_world ''cache'' Map.empty example_fs (answer_status 500 ?b)"
  let ?w3 = "example_world ''cache'' Map.empty [] answer_error"
  let ?w4 = "example_world ''cache'' Map.empty [] (answer_status 500 ?b)"
  let ?hit = "Inr (''cached-value'', example_info) :: error + (bytes \<times> fileinfo)"
  let ?miss = "Inl (PathError ''stat'' example_path ErrNotExist) :: error + (bytes \<times> fileinfo)"
  note u = example_unwrap_cache
  note o = example_original
  obtain a1 h1 where p1: "upstreamRequest example_lib 0 example_dest
      (case ?hit of Inl _ \<Rightarrow> None | Inr x \<Rightarrow> Some x) (heap ?w1) = (a1, h1)"
    by fastforce
  obtain a2 h2 where p2: "upstreamRequest example_lib 0 example_dest
      (case ?hit of Inl _ \<Rightarrow> None | Inr x \<Rightarrow> Some x) (heap ?w2) = (a2, h2)"
    by fastforce
  obtain a3 h3 where p3: "upstreamRequest example_lib 0 example_dest
      (case ?miss of Inl _ \<Rightarrow> None | Inr x \<Rightarrow> Some x) (heap ?w3) = (a3, h3)"
    by fastforce
  obtain a4 h4 where p4: "upstreamRequest example_lib 0 example_dest
      (case ?miss of Inl _ \<Rightarrow> None | Inr x \<Rightarrow> Some x) (heap ?w4) = (a4, h4)"
    by fastforce
  have a4: "a4 = 1"
    using p4 by (simp add: upstreamRequest_eq example_world_def example_heap_def)
  have t1: "fst (mock_RoundTrip a1 h1 (ts ?w1)) = Inl (OtherError ''connection refused'')"
   and t3: "fst (mock_RoundTrip a3 h3 (ts ?w3)) = Inl (OtherError ''connection refused'')"
    by (simp_all add: answer_error_def mock_answer)
  have t2: "fst (mock_RoundTrip a2 h2 (ts ?w2)) =
              Inr \<lparr>StatusCode = 500, Status = [], Body = ?b, ResponseHeader = Map.empty,
                   ContentLength = 0, Request = Some a2\<rparr>"
   and t4: "fst (mock_RoundTrip a4 h4 (ts ?w4)) =
              Inr \<lparr>StatusCode = 500, Status = [], Body = ?b, ResponseHeader = Map.empty,
                   ContentLength = 0, Request = Some a4\<rparr>"
    by (simp_all add: answer_status_def mock_answer)
  show ?thesis
    using validation_falls_back_to_cache [OF u o example_cache_hit p1 t1]
          validation_falls_back_to_cache [OF u o example_cache_hit p2 t2]
          validation_falls_back_to_cache [OF u o example_cache_miss p3 t3]
          validation_falls_back_to_cache [OF u o example_cache_miss p4 t4]
    by (simp add: a4)
qed

text \<open>
  Claim C2. In a Validating Fetch with a cache entry holding the bytes \<open>b\<close>, when the
  transport answers with status 304 the call returns the cached response synthesized
  from \<open>b\<close>. For every request and every byte sequence, the synthesized response (a total
  function, so it cannot fail) has status 200, carries the header \<open>X-HTTP-Cache: HIT\<close>,
  has a body that reads back exactly the bytes, and a content length equal to their
  number.
\<close>

theorem not_modified_serves_cache:
  assumes "unwrapScheme L (URL (req_at (heap w) req)) ''cache'' = Inr d"
    and "original c = Some T"
    and "readCacheFile L (cachePathForURL L c d) (fs w) = Inr (b, i)"
    and "upstreamRequest L req d (Some (b, i)) (heap w) = (a, h)"
    and "fst (T a h (ts w)) = Inr resp"
    and "StatusCode resp = 304"
  shows "fst (roundTripWithValidation L c req w) = Ok (cachedResponse req b)
       \<and> (\<forall>req' b'. StatusCode (cachedResponse req' b') = 200
              \<and> ResponseHeader (cachedResponse req' b') ''X-HTTP-Cache'' = Some [''HIT'']
              \<and> io_ReadAll (Body (cachedResponse req' b')) = (b', None)
              \<and> ContentLength (cachedResponse req' b') = int (length b'))"
  using assms
  by (auto simp: roundTripWithValidation_def roundTripWithValidation_upstream_def invoke_def Let_def
        cachedResponse_def io_ReadAll_def NopCloser_NewReader_def StatusOK_def StatusNotModified_def
        split: prod.splits)

theorem not_modified_serves_cache_witness:
  "fst (roundTripWithValidation example_lib example_rt 0
          (example_world ''cache'' Map.empty example_fs (answer_status 304 http_NoBody)))
     = Ok (cachedResponse 0 ''cached-value'')
   \<and> StatusCode (cachedResponse 0 ''cached-value'') = 200
   \<and> io_ReadAll (Body (cachedResponse 0 ''cached-value'')) = (''cached-value'', None)
   \<and> ContentLength (cachedResponse 0 ''cached-value'') = 12"
proof -
  let ?w = "example_world ''cache'' Map.empty example_fs (answer_status 304 http_NoBody)"
  obtain a h where p: "upstreamRequest example_lib 0 example_dest
      (Some (''cached-value'', example_info)) (heap ?w) = (a, h)"
    by fastforce
  have t: "fst (mock_RoundTrip a h (ts ?w)) =
             Inr \<lparr>StatusCode = 304, Status = [], Body = http_NoBody, ResponseHeader = Map.empty,
                  ContentLength = 0, Request = Some a\<rparr>"
    by (simp add: answer_status_def mock_answer)
  show ?thesis
    using not_modified_serves_cache [OF example_unwrap_cache example_original example_cache_hit p t]
    by simp
qed

text \<open>
  Claim C4. In a Validating Fetch whose transport answers with a status in 200..299, the
  body is read to its end (\<open>buf\<close> is what was read, \<open>readErr\<close> the read error if any).
  On a read error the cached response is returned when an entry exists, and the read
  error when none exists. Without a read error the call returns the transport's response
  with \<open>buf\<close> as its fully buffered body and \<open>length buf\<close> as its content length,
  whatever the cache write returns, and the file system afterwards is the one left by
  writing \<open>buf\<close> to the entry's path.
\<close>

theorem fresh_success_buffered_and_stored:
  assumes "unwrapScheme L (URL (req_at (heap w) req)) ''cache'' = Inr d"
    and "original c = Some T"
    and "readCacheFile L (cachePathForURL L c d) (fs w) = rd"
    and "upstreamRequest L req d (case rd of Inl _ \<Rightarrow> None | Inr x \<Rightarrow> Some x) (heap w) = (a, h)"
    and "fst (T a h (ts w)) = Inr resp"
    and "200 \<le> StatusCode resp" and "StatusCode resp < 300"
    and "io_ReadAll (Body resp) = (buf, readErr)"
  shows "(\<forall>rerr b i. readErr = Some rerr \<and> rd = Inr (b, i) \<longrightarrow>
            fst (roundTripWithValidation L c req w) = Ok (cachedResponse req b))
       \<and> (\<forall>rerr e. readErr = Some rerr \<and> rd = Inl e \<and> errors_Is e ErrNotExist \<longrightarrow>
            fst (roundTripWithValidation L c req w) = Err rerr)
       \<and> (readErr = None \<and> (case rd of Inl e \<Rightarrow> errors_Is e ErrNotExist | Inr _ \<Rightarrow> True) \<longrightarrow>
            fst (roundTripWithValidation L c req w)
              = Ok (resp\<lparr>Body := NopCloser_NewReader buf, ContentLength := int (length buf)\<rparr>)
            \<and> fs (snd (roundTripWithValidation L c req w))
              = snd (writeCacheFile L (cachePathForURL L c d) buf (fs w)))"
  using assms
  by (auto simp: roundTripWithValidation_def roundTripWithValidation_upstream_def invoke_def Let_def
        StatusOK_def StatusMultipleChoices_def StatusNotModified_def split: prod.splits sum.splits)

theorem fresh_success_buffered_and_stored_witness:
  "fst (roundTripWithValidation example_lib example_rt 0
          (example_world ''cache'' Map.empty [] (answer_status 200 (NopCloser_NewReader ''fresh''))))
     = Ok \<lparr>StatusCode = 200, Status = [], Body = NopCloser_NewReader ''fresh'',
           ResponseHeader = Map.empty, ContentLength = 5, Request = Some 1\<rparr>
   \<and> fs (snd (roundTripWithValidation example_lib example_rt 0
          (example_world ''cache'' Map.empty [] (answer_status 200 (NopCloser_NewReader ''fresh'')))))
     = [(example_path, ''fresh'', mem_now)]
   \<and> fst (roundTripWithValidation (example_lib\<lparr>os_WriteFile := \<lambda>p d m f. (Some (OtherError ''disk full''), f)\<rparr>)
          example_rt 0
          (example_world ''cache'' Map.empty [] (answer_status 200 (NopCloser_NewReader ''fresh''))))
     = Ok \<lparr>StatusCode = 200, Status = [], Body = NopCloser_NewReader ''fresh'',
           ResponseHeader = Map.empty, ContentLength = 5, Request = Some 1\<rparr>
   \<and> fst (roundTripWithValidation example_lib example_rt 0
          (example_world ''cache'' Map.empty example_fs
             (answer_status 200 \<lparr>data = ''fr'', fail = Some (OtherError ''unexpected EOF''), closed = False\<rparr>)))
     = Ok (cachedResponse 0 ''cached-value'')
   \<and> fst (roundTripWithValidation example_lib example_rt 0
          (example_world ''cache'' Map.empty []
             (answer_status 200 \<lparr>data = ''fr'', fail = Some (OtherError ''unexpected EOF''), closed = False\<rparr>)))
     = Err (OtherError ''unexpected EOF'')"
proof -
  let ?fresh = "NopCloser_NewReader ''fresh''"
  let ?broken = "\<lparr>data = ''fr'', fail = Some (OtherError ''unexpected EOF''), closed = False\<rparr>"
  let ?L' = "example_lib\<lparr>os_WriteFile := \<lambda>p d m f. (Some (OtherError ''disk full''), f)\<rparr>"
  let ?w1 = "example_world ''cache'' Map.empty [] (answer_status 200 ?fresh)"
  let ?w3 = "example_world ''cache'' Map.empty example_fs (answer_status 200 ?broken)"
  let ?w4 = "example_world ''cache'' Map.empty [] (answer_status 200 ?broken)"
  let ?hit = "Inr (''cached-value'', example_info) :: error + (bytes \<times> fileinfo)"
  let ?miss = "Inl (PathError ''stat'' example_path ErrNotExist) :: error + (bytes \<times> fileinfo)"
  note u = example_unwrap_cache
  note o = example_original
  have u': "unwrapScheme ?L' (URL (req_at (heap ?w1) 0)) ''cache'' = Inr example_dest"
    by (simp add: example_unwrap)
  have k': "cachePathForURL ?L' example_rt example_dest = example_path"
    using example_key by (simp add: cachePathForURL_def example_lib_def)
  have r': "readCacheFile ?L' (cachePathForURL ?L' example_rt example_dest) (fs ?w1) = ?miss"
    unfolding k' by (simp add: readCacheFile_def example_world_def mem_Stat_def)
  obtain a1 h1 where p1: "upstreamRequest example_lib 0 example_dest
      (case ?miss of Inl _ \<Rightarrow> None | Inr x \<Rightarrow> Some x) (heap ?w1) = (a1, h1)"
    by fastforce
  obtain a2 h2 where p2: "upstreamRequest ?L' 0 example_dest
      (case ?miss of Inl _ \<Rightarrow> None | Inr x \<Rightarrow> Some x) (heap ?w1) = (a2, h2)"
    by fastforce
  obtain a3 h3 where p3: "upstreamRequest example_lib 0 example_dest
      (case ?hit of Inl _ \<Rightarrow> None | Inr x \<Rightarrow> Some x) (heap ?w3) = (a3, h3)"
    by fastforce
  obtain a4 h4 where p4: "upstreamRequest example_lib 0 example_dest
      (case ?miss of Inl _ \<Rightarrow> None | Inr x \<Rightarrow> Some x) (heap ?w4) = (a4, h4)"
    by fastforce
  have a: "a1 = 1" "a2 = 1"
    using p1 p2 by (simp_all add: upstreamRequest_eq example_world_def example_heap_def)
  let ?r1 = "\<lparr>StatusCode = 200, Status = [], Body = ?fresh, ResponseHeader = Map.empty,
                ContentLength = 0, Request = Some a1\<rparr>"
  let ?r2 = "\<lparr>StatusCode = 200, Status = [], Body = ?fresh, ResponseHeader = Map.empty,
                ContentLength = 0, Request = Some a2\<rparr>"
  let ?r3 = "\<lparr>StatusCode = 200, Status = [], Body = ?broken, ResponseHeader = Map.empty,
                ContentLength = 0, Request = Some a3\<rparr>"
  let ?r4 = "\<lparr>StatusCode = 200, Status = [], Body = ?broken, ResponseHeader = Map.empty,
                ContentLength = 0, Request = Some a4\<rparr>"
  have t1: "fst (mock_RoundTrip a1 h1 (ts ?w1)) = Inr ?r1"
   and t2: "fst (mock_RoundTrip a2 h2 (ts ?w1)) = Inr ?r2"
   and t3: "fst (mock_RoundTrip a3 h3 (ts ?w3)) = Inr ?r3"
   and t4: "fst (mock_RoundTrip a4 h4 (ts ?w4)) = Inr ?r4"
    by (simp_all add: answer_status_def mock_answer)
  have s1: "200 \<le> StatusCode ?r1" "StatusCode ?r1 < 300" "io_ReadAll (Body ?r1) = (''fresh'', None)"
   and s2: "200 \<le> StatusCode ?r2" "StatusCode ?r2 < 300" "io_ReadAll (Body ?r2) = (''fresh'', None)"
   and s3: "200 \<le> StatusCode ?r3" "StatusCode ?r3 < 300"
           "io_ReadAll (Body ?r3) = (''fr'', Some (OtherError ''unexpected EOF''))"
   and s4: "200 \<le> StatusCode ?r4" "StatusCode ?r4 < 300"
           "io_ReadAll (Body ?r4) = (''fr'', Some (OtherError ''unexpected EOF''))"
    by (simp_all add: io_ReadAll_def NopCloser_NewReader_def)
  have wr: "snd (writeCacheFile example_lib example_path ''fresh'' (fs ?w1)) = [(example_path, ''fresh'', mem_now)]"
    by (simp add: writeCacheFile_def example_lib_def mem_WriteFile_def mem_Rename_def
          example_world_def example_path_def)
  show ?thesis
    using fresh_success_buffered_and_stored [OF u o example_cache_miss p1 t1 s1]
          fresh_success_buffered_and_stored [OF u' o r' p2 t2 s2]
          fresh_success_buffered_and_stored [OF u o example_cache_hit p3 t3 s3]
          fresh_success_buffered_and_stored [OF u o example_cache_miss p4 t4 s4]
    by (simp add: a example_key wr)
qed

text \<open>
  Claim C10. Let the caller's request and its header map be allocated in the store. After
  a Validating Fetch the caller's request struct and header map are what they were.
  Every transport call made during the fetch is for a newly allocated request, not the
  caller's: a copy of the caller's request with its own header map, aimed at the
  unwrapped destination. A returned response is either a synthesized cached response,
  whose \<open>Request\<close> field is the caller's request, or the transport's response to the new
  request (as it is, or with its body buffered).
\<close>

theorem validation_leaves_caller_request:
  assumes "req < next_req (heap w)"
    and "Header (req_at (heap w) req) < next_hdr (heap w)"
  shows "req_at (heap (snd (roundTripWithValidation L c req w))) req = req_at (heap w) req
       \<and> hdr_at (heap (snd (roundTripWithValidation L c req w))) (Header (req_at (heap w) req))
           = hdr_at (heap w) (Header (req_at (heap w) req))
       \<and> (\<forall>x \<in> set (drop (length (calls w)) (calls (snd (roundTripWithValidation L c req w)))).
             call_req x \<noteq> req
             \<and> call_req x = next_req (heap w)
             \<and> unwrapScheme L (URL (req_at (heap w) req)) ''cache'' = Inr (call_URL x)
             \<and> req_at (heap (snd (roundTripWithValidation L c req w))) (call_req x)
                 = (req_at (heap w) req)\<lparr>Header := next_hdr (heap w), URL := call_URL x\<rparr>)
       \<and> (\<forall>resp. fst (roundTripWithValidation L c req w) = Ok resp \<longrightarrow>
             (\<exists>b. resp = cachedResponse req b \<and> Request resp = Some req)
             \<or> (\<exists>T up. original c = Some T
                   \<and> fst (T (next_req (heap w)) (heap (snd (roundTripWithValidation L c req w))) (ts w)) = Inr up
                   \<and> (resp = up
                       \<or> resp = up\<lparr>Body := NopCloser_NewReader (fst (io_ReadAll (Body up))),
                                    ContentLength := int (length (fst (io_ReadAll (Body up))))\<rparr>)))"
proof (cases "unwrapScheme L (URL (req_at (heap w) req)) ''cache''")
  case (Inl err)
  then show ?thesis
    by (simp add: roundTripWithValidation_def)
next
  case (Inr d)
  let ?p = "cachePathForURL L c d"
  have fatal: ?thesis
    if "roundTripWithValidation L c req w = (Err e, w)" for e
    using that by simp
  have continue: ?thesis
    if eq: "roundTripWithValidation L c req w = roundTripWithValidation_upstream L c req d ?p cache w"
    for cache
  proof -
    have "\<exists>b. resp = cachedResponse req b \<and> Request resp = Some req"
      if "\<exists>b. resp = cachedResponse req b" for resp
      using that by (auto simp: cachedResponse_def)
    then show ?thesis
      unfolding eq using assms Inr upstream_result [of L c req d ?p cache w]
      by (cases "original c")
         (auto simp: upstream_heap upstream_calls_new upstreamRequest_eq)
  qed
  show ?thesis
  proof (cases "readCacheFile L ?p (fs w)")
    case (Inl cacheErr)
    show ?thesis
    proof (cases "errors_Is cacheErr ErrNotExist")
      case True
      with Inr Inl show ?thesis
        by (intro continue [of None]) (simp add: roundTripWithValidation_def)
    next
      case False
      with Inr Inl show ?thesis
        by (intro fatal [of cacheErr]) (simp add: roundTripWithValidation_def)
    qed
  next
    case (Inr x)
    with \<open>unwrapScheme L (URL (req_at (heap w) req)) ''cache'' = Inr d\<close> show ?thesis
      by (intro continue [of "Some x"]) (simp add: roundTripWithValidation_def split: prod.splits)
  qed
qed

theorem validation_leaves_caller_request_witness:
  "0 < next_req (heap (example_world ''cache'' Map.empty example_fs (answer_status 304 http_NoBody)))
   \<and> Header (req_at (heap (example_world ''cache'' Map.empty example_fs (answer_status 304 http_NoBody))) 0)
       < next_hdr (heap (example_world ''cache'' Map.empty example_fs (answer_status 304 http_NoBody)))
   \<and> req_at (heap (snd (roundTripWithValidation example_lib example_rt 0
          (example_world ''cache'' Map.empty example_fs (answer_status 304 http_NoBody))))) 0
       = \<lparr>Method = ''GET'',
          URL = url_zero\<lparr>Scheme := ''cache'', Opaque := ''https://example.com/data''\<rparr>,
          Header = 0\<rparr>
   \<and> hdr_at (heap (snd (roundTripWithValidation example_lib example_rt 0
          (example_world ''cache'' Map.empty example_fs (answer_status 304 http_NoBody))))) 0
       = Map.empty"
proof -
  let ?w = "example_world ''cache'' Map.empty example_fs (answer_status 304 http_NoBody)"
  have a: "0 < next_req (heap ?w)" "Header (req_at (heap ?w) 0) < next_hdr (heap ?w)"
    by (simp_all add: example_world_def example_heap_def)
  have r: "req_at (heap ?w) 0 = \<lparr>Method = ''GET'',
             URL = url_zero\<lparr>Scheme := ''cache'', Opaque := ''https://example.com/data''\<rparr>,
             Header = 0\<rparr>"
          "hdr_at (heap ?w) 0 = Map.empty"
    by (simp_all add: example_world_def example_heap_def)
  show ?thesis
    using validation_leaves_caller_request [OF a, of example_lib example_rt] a
    by (simp add: r)
qed

section \<open>Cache-Only Fetch\<close>

text \<open>
  Claim C5. For a Cache-Only Fetch whose URL unwraps to the destination \<open>d\<close>: when the
  cache entry is read successfully, the call returns the synthesized cached response over
  the cached bytes and no error; when the storage read reports not-found, the call fails
  with the error \<open>cache miss for\<close> followed by the serialized destination URL; any other
  storage error is returned as it is. In each case the world is left as it was.
\<close>

theorem roundTripCacheOnly_outcomes:
  assumes "unwrapScheme L (URL (req_at (heap w) req)) ''cachez'' = Inr d"
  shows "(\<forall>b i. readCacheFile L (cachePathForURL L c d) (fs w) = Inr (b, i) \<longrightarrow>
            roundTripCacheOnly L c req w = (Ok (cachedResponse req b), w))
       \<and> (\<forall>e. readCacheFile L (cachePathForURL L c d) (fs w) = Inl e \<and> errors_Is e ErrNotExist \<longrightarrow>
            roundTripCacheOnly L c req w = (Err (Errorf (''cache miss for '' @ url_String L d)), w))
       \<and> (\<forall>e. readCacheFile L (cachePathForURL L c d) (fs w) = Inl e \<and> \<not> errors_Is e ErrNotExist \<longrightarrow>
            roundTripCacheOnly L c req w = (Err e, w))"
  using assms by (simp add: roundTripCacheOnly_def)

theorem roundTripCacheOnly_outcomes_witness:
  "roundTripCacheOnly example_lib example_rt 0 (example_world ''cachez'' Map.empty example_fs None)
     = (Ok (cachedResponse 0 ''cached-value''), example_world ''cachez'' Map.empty example_fs None)
   \<and> roundTripCacheOnly example_lib example_rt 0 (example_world ''cachez'' Map.empty [] None)
     = (Err (Errorf ''cache miss for https://example.com/data''),
        example_world ''cachez'' Map.empty [] None)
   \<and> roundTripCacheOnly (example_lib\<lparr>os_Stat := \<lambda>p f. Inl (OtherError ''permission denied'')\<rparr>)
        example_rt 0 (example_world ''cachez'' Map.empty example_fs None)
     = (Err (OtherError ''permission denied''), example_world ''cachez'' Map.empty example_fs None)"
proof -
  let ?hit = "example_world ''cachez'' Map.empty example_fs None"
  let ?miss = "example_world ''cachez'' Map.empty [] None"
  let ?L' = "example_lib\<lparr>os_Stat := \<lambda>p f. Inl (OtherError ''permission denied'')\<rparr>"
  have u: "unwrapScheme example_lib (URL (req_at (heap ?hit) 0)) ''cachez'' = Inr example_dest"
          "unwrapScheme example_lib (URL (req_at (heap ?miss) 0)) ''cachez'' = Inr example_dest"
    by (simp_all add: example_unwrap)
  have u': "unwrapScheme ?L' (URL (req_at (heap ?hit) 0)) ''cachez'' = Inr example_dest"
    by (simp add: example_unwrap)
  have r': "readCacheFile ?L' (cachePathForURL ?L' example_rt example_dest) (fs ?hit)
              = Inl (OtherError ''permission denied'')"
    by (simp add: readCacheFile_def)
  show ?thesis
    using roundTripCacheOnly_outcomes [OF u(1), of example_rt]
          roundTripCacheOnly_outcomes [OF u(2), of example_rt]
          roundTripCacheOnly_outcomes [OF u', of example_rt]
    by (simp add: example_key example_read_hit example_read_miss example_dest_String r')
qed

text \<open>
  Claim C6. A Cache-Only Fetch leaves the world as it was whatever its outcome (hit, miss,
  unwrap failure or storage error): in particular the log of transport calls gains no
  entry and the transport's state is untouched. A request whose scheme is \<open>cachez\<close>,
  dispatched through \<open>RoundTrip\<close>, makes no transport call.
\<close>

theorem cache_only_never_calls_transport:
  "snd (roundTripCacheOnly L c req w) = w
   \<and> (Scheme (URL (req_at (heap w) req)) = ''cachez'' \<longrightarrow>
        calls (snd (RoundTrip L c req w)) = calls w \<and> ts (snd (RoundTrip L c req w)) = ts w)"
  by (auto simp: roundTripCacheOnly_def RoundTrip_def Let_def split: sum.splits option.splits prod.splits)

theorem cache_only_never_calls_transport_witness:
  "Scheme (URL (req_at (heap (example_world ''cachez'' Map.empty example_fs None)) 0)) = ''cachez''
   \<and> calls (snd (RoundTrip example_lib example_rt 0 (example_world ''cachez'' Map.empty example_fs None))) = []
   \<and> callCount (ts (snd (RoundTrip example_lib example_rt 0 (example_world ''cachez'' Map.empty example_fs None)))) = 0
   \<and> calls (snd (RoundTrip example_lib example_rt 0 (example_world ''cachez'' Map.empty [] None))) = []
   \<and> callCount (ts (snd (RoundTrip example_lib example_rt 0 (example_world ''cachez'' Map.empty [] None)))) = 0"
proof -
  have s: "Scheme (URL (req_at (heap (example_world ''cachez'' Map.empty f None)) 0)) = ''cachez''" for f
    by (simp add: example_world_def example_heap_def url_zero_def)
  have z: "calls (example_world ''cachez'' Map.empty f None) = []"
          "callCount (ts (example_world ''cachez'' Map.empty f None)) = 0" for f
    by (simp_all add: example_world_def)
  show ?thesis
    using cache_only_never_calls_transport [of example_lib example_rt 0 "example_world ''cachez'' Map.empty example_fs None"]
          cache_only_never_calls_transport [of example_lib example_rt 0 "example_world ''cachez'' Map.empty [] None"]
    by (simp add: s z)
qed

end
